theory Spec2Isabelle
  imports Complex_Main "HOL-Library.Sublist"
begin

section \<open>Strings\<close>

text \<open>
  Python strings are modelled as \<open>string\<close> (lists of 8-bit characters) and are taken to be
  ASCII text: \<open>str.lower\<close> maps the letters A..Z to a..z and leaves every other character
  alone. A character is given by its eight bits, lowest first. The upper-case letters are
  the codes 65..90: bits 7, 6, 5 are 0, 1, 0 and the five low bits are a number from 1 to
  26. Lower-casing sets bit 5, which adds 32.
\<close>

fun lower_char :: "char \<Rightarrow> char" where
  "lower_char (Char b0 b1 b2 b3 b4 b5 b6 b7) =
     (if \<not> b7 \<and> b6 \<and> \<not> b5 \<and> (b0 \<or> b1 \<or> b2 \<or> b3 \<or> b4) \<and>
         \<not> (b4 \<and> b3 \<and> (b2 \<or> (b1 \<and> b0)))
      then Char b0 b1 b2 b3 b4 True b6 b7
      else Char b0 b1 b2 b3 b4 b5 b6 b7)"

definition lower :: "string \<Rightarrow> string" where
  "lower s = map lower_char s"

text \<open>\<open>sep.join(xs)\<close>\<close>

fun join :: "string \<Rightarrow> string list \<Rightarrow> string" where
  "join sep [] = []"
| "join sep [x] = x"
| "join sep (x # y # ys) = x @ sep @ join sep (y # ys)"

section \<open>Data model\<close>

text \<open>
  \<open>DependencyInfo\<close> of dependency_analyzer.py. The flattener asks
  \<open>hasattr(dep, 'category')\<close>, so the category is optional here: \<open>None\<close> is an object
  without that attribute. A \<open>DependencyInfo\<close> always has it, with the default
  \<open>''unknown''\<close>.
\<close>

record DependencyInfo =
  dep_name :: string
  dep_version :: "string option"
  dep_type :: string
  dep_category :: "string option"

text \<open>
  The \<open>patterns\<close> dictionary of structure_analyzer.py. A missing key is its
  \<open>.get\<close> default: the empty list, and the empty string for the architecture.
\<close>

record Patterns =
  frameworks :: "string list"
  project_types :: "string list"
  key_patterns :: "string list"
  architecture :: string

text \<open>
  \<open>analysis_results\<close>: the \<open>dependencies\<close> list and \<open>structure.patterns\<close>
  (absent keys are the \<open>.get\<close> defaults, that is empty).
\<close>

record AnalysisResults =
  dependencies :: "DependencyInfo list"
  structure_patterns :: Patterns

text \<open>The \<open>triggers\<close> dictionary of a template; an absent tier is the empty list.\<close>

record Triggers =
  strong :: "string list"
  medium :: "string list"
  weak :: "string list"

text \<open>
  A workflow template. \<open>category\<close>, \<open>estimated_time\<close> and \<open>prerequisites\<close> are read
  with \<open>.get(key, default)\<close>, so they are optional.
\<close>

record WorkflowTemplate =
  t_category :: "string option"
  t_estimated_time :: "string option"
  t_prerequisites :: "string list option"
  t_triggers :: Triggers
  t_description :: string

record WorkflowSuggestion =
  name :: string
  confidence :: real
  reasoning :: string
  category :: string
  estimated_time :: string
  prerequisites :: "string list"
  triggers :: "string list"

section \<open>The matcher\<close>

text \<open>
  \<open>self.confidence_weights\<close>, set once in \<open>__init__\<close>. Python floats are modelled as
  exact reals.
\<close>

definition strong_signal :: real where "strong_signal = 0.9"
definition medium_signal :: real where "medium_signal = 0.7"
definition weak_signal :: real where "weak_signal = 0.5"
definition suggestion_weight :: real where "suggestion_weight = 0.3"

definition mk_template ::
  "string \<Rightarrow> string \<Rightarrow> string list \<Rightarrow> string list \<Rightarrow> string list \<Rightarrow> string list \<Rightarrow> string
     \<Rightarrow> WorkflowTemplate" where
  "mk_template cat time prereq s m w descr =
     \<lparr> t_category = Some cat, t_estimated_time = Some time, t_prerequisites = Some prereq,
       t_triggers = \<lparr> strong = s, medium = m, weak = w \<rparr>, t_description = descr \<rparr>"

text \<open>
  \<open>_load_workflow_templates\<close>: the fifteen templates of the catalog, each under a name
  of its own, and the catalog, a dictionary in insertion order, hence an association list.
\<close>

definition component_library :: WorkflowTemplate where
  "component_library =
     mk_template ''frontend'' ''15-30 minutes''
       [''React/Vue/Angular'', ''components folder'']
       [''react'', ''vue'', ''angular'', ''components/'']
       [''jsx'', ''tsx'', ''vue'', ''svelte'']
       [''src/'', ''lib/'']
       ''Create comprehensive component library with documentation and testing''"

definition storybook_setup :: WorkflowTemplate where
  "storybook_setup =
     mk_template ''frontend'' ''10-20 minutes''
       [''Component library'', ''React/Vue/Angular'']
       [''components/'', ''storybook'']
       [''react'', ''vue'', ''angular'']
       [''ui components'', ''design system'']
       ''Set up Storybook for component development and documentation''"

definition frontend_testing :: WorkflowTemplate where
  "frontend_testing =
     mk_template ''testing'' ''20-40 minutes''
       [''Frontend framework'', ''Test files'']
       [''jest'', ''vitest'', ''cypress'', ''playwright'']
       [''tests/'', ''__tests__'', ''spec/'']
       [''test'', ''spec'']
       ''Set up comprehensive frontend testing suite''"

definition api_documentation :: WorkflowTemplate where
  "api_documentation =
     mk_template ''backend'' ''20-45 minutes''
       [''API framework'', ''Route definitions'']
       [''express'', ''fastapi'', ''django'', ''api/'', ''routes/'']
       [''rest'', ''graphql'', ''api'']
       [''server'', ''backend'']
       ''Generate comprehensive API documentation with OpenAPI/Swagger''"

definition database_schema :: WorkflowTemplate where
  "database_schema =
     mk_template ''database'' ''30-60 minutes''
       [''Database ORM'', ''Model definitions'']
       [''prisma'', ''typeorm'', ''sqlalchemy'', ''models/'', ''schemas/'']
       [''database'', ''orm'', ''models'']
       [''data'', ''storage'']
       ''Analyze and document database schema with relationships''"

definition database_migration :: WorkflowTemplate where
  "database_migration =
     mk_template ''database'' ''15-30 minutes''
       [''Database setup'', ''Migration files'']
       [''migrations/'', ''seeds/'', ''prisma'']
       [''database'', ''sql'', ''schema'']
       [''data'', ''storage'']
       ''Set up database migration and seeding workflow''"

definition full_stack_documentation :: WorkflowTemplate where
  "full_stack_documentation =
     mk_template ''documentation'' ''45-90 minutes''
       [''Frontend + Backend'', ''API endpoints'']
       [''react'', ''express'', ''api/'', ''components/'']
       [''frontend'', ''backend'', ''full-stack'']
       [''web'', ''application'']
       ''Create comprehensive documentation for full-stack application''"

definition test_coverage :: WorkflowTemplate where
  "test_coverage =
     mk_template ''testing'' ''25-45 minutes''
       [''Test framework'', ''Source code'']
       [''jest'', ''vitest'', ''pytest'', ''coverage'']
       [''tests/'', ''__tests__'', ''testing'']
       [''test'', ''spec'']
       ''Set up test coverage reporting and improve test coverage''"

definition api_testing :: WorkflowTemplate where
  "api_testing =
     mk_template ''testing'' ''20-35 minutes''
       [''API endpoints'', ''Testing framework'']
       [''express'', ''fastapi'', ''cypress'', ''playwright'']
       [''api/'', ''routes/'', ''testing'']
       [''api'', ''test'']
       ''Set up comprehensive API testing suite''"

definition documentation_generation :: WorkflowTemplate where
  "documentation_generation =
     mk_template ''documentation'' ''30-60 minutes''
       [''Source code'', ''README files'']
       [''readme.md'', ''docs/'', ''documentation'']
       [''.md files'', ''comments'', ''docstrings'']
       [''docs'', ''documentation'']
       ''Generate comprehensive documentation from source code and existing docs''"

definition knowledge_base :: WorkflowTemplate where
  "knowledge_base =
     mk_template ''documentation'' ''45-75 minutes''
       [''Documentation files'', ''Project structure'']
       [''docs/'', ''documentation'', ''readme.md'']
       [''.md files'', ''wiki'', ''knowledge'']
       [''docs'', ''information'']
       ''Create searchable knowledge base from project documentation''"

definition deployment_pipeline :: WorkflowTemplate where
  "deployment_pipeline =
     mk_template ''deployment'' ''30-60 minutes''
       [''Project structure'', ''CI/CD setup'']
       [''.github/'', ''dockerfile'', ''ci-cd'']
       [''deploy'', ''pipeline'', ''automation'']
       [''production'', ''release'']
       ''Set up automated deployment pipeline with CI/CD''"

definition docker_setup :: WorkflowTemplate where
  "docker_setup =
     mk_template ''deployment'' ''15-30 minutes''
       [''Application code'', ''Configuration'']
       [''dockerfile'', ''docker-compose'']
       [''container'', ''deployment'']
       [''docker'', ''containerization'']
       ''Set up Docker containerization for application''"

definition code_quality :: WorkflowTemplate where
  "code_quality =
     mk_template ''development'' ''20-40 minutes''
       [''Source code'', ''Linting tools'']
       [''eslint'', ''prettier'', ''linting'']
       [''code quality'', ''formatting'']
       [''code'', ''quality'']
       ''Set up code quality tools and formatting standards''"

definition performance_optimization :: WorkflowTemplate where
  "performance_optimization =
     mk_template ''development'' ''30-60 minutes''
       [''Application code'', ''Performance issues'']
       [''performance'', ''optimization'', ''speed'']
       [''slow'', ''lag'', ''optimization'']
       [''performance'', ''improvement'']
       ''Analyze and optimize application performance''"

definition load_workflow_templates :: "(string \<times> WorkflowTemplate) list" where
  "load_workflow_templates =
     [(''component-library'', component_library),
      (''storybook-setup'', storybook_setup),
      (''frontend-testing'', frontend_testing),
      (''api-documentation'', api_documentation),
      (''database-schema'', database_schema),
      (''database-migration'', database_migration),
      (''full-stack-documentation'', full_stack_documentation),
      (''test-coverage'', test_coverage),
      (''api-testing'', api_testing),
      (''documentation-generation'', documentation_generation),
      (''knowledge-base'', knowledge_base),
      (''deployment-pipeline'', deployment_pipeline),
      (''docker-setup'', docker_setup),
      (''code-quality'', code_quality),
      (''performance-optimization'', performance_optimization)]"

text \<open>
  \<open>_extract_detected_items\<close>: every dependency contributes its lower-cased name and,
  when it has a category attribute, its lower-cased category; then the three label lists
  and the architecture (when truthy and not \<open>''unknown''\<close>); all lower-cased at the end.
\<close>

fun extract_dependencies :: "DependencyInfo list \<Rightarrow> string list" where
  "extract_dependencies [] = []"
| "extract_dependencies (dep # deps) =
     (lower (dep_name dep) #
        (case dep_category dep of
           None \<Rightarrow> []
         | Some c \<Rightarrow> [lower c])) @ extract_dependencies deps"

definition extract_detected_items :: "DependencyInfo list \<Rightarrow> Patterns \<Rightarrow> string list" where
  "extract_detected_items deps pats =
     (let detected_items = extract_dependencies deps;
          detected_items = detected_items @ frameworks pats;
          detected_items = detected_items @ project_types pats;
          detected_items = detected_items @ key_patterns pats;
          arch = architecture pats;
          detected_items =
            (if arch \<noteq> [] \<and> arch \<noteq> ''unknown'' then detected_items @ [arch]
             else detected_items)
      in map lower detected_items)"

text \<open>\<open>len(set(ts) & set(items))\<close>\<close>

definition common_count :: "string list \<Rightarrow> string list \<Rightarrow> nat" where
  "common_count ts items = card (set ts \<inter> set items)"

text \<open>\<open>[item for item in ts if item.lower() in detected_items]\<close>\<close>

definition matched_items :: "string list \<Rightarrow> string list \<Rightarrow> string list" where
  "matched_items ts detected_items = filter (\<lambda>item. lower item \<in> set detected_items) ts"

text \<open>\<open>_generate_reasoning\<close>\<close>

definition generate_reasoning ::
  "nat \<Rightarrow> nat \<Rightarrow> nat \<Rightarrow> Triggers \<Rightarrow> string list \<Rightarrow> string" where
  "generate_reasoning strong_matches medium_matches weak_matches trigs detected_items =
     (let reasoning_parts = [];
          reasoning_parts =
            (if strong_matches > 0
             then reasoning_parts @
                    [''Strong indicators: '' @ join '', '' (matched_items (strong trigs) detected_items)]
             else reasoning_parts);
          reasoning_parts =
            (if medium_matches > 0
             then reasoning_parts @
                    [''Supporting indicators: '' @ join '', '' (matched_items (medium trigs) detected_items)]
             else reasoning_parts);
          reasoning_parts =
            (if weak_matches > 0
             then reasoning_parts @
                    [''Additional indicators: '' @ join '', '' (matched_items (weak trigs) detected_items)]
             else reasoning_parts)
      in if reasoning_parts = [] then ''General recommendation based on project structure''
         else join '' | '' reasoning_parts)"

text \<open>\<open>_calculate_workflow_confidence\<close>\<close>

definition calculate_workflow_confidence ::
  "string \<Rightarrow> WorkflowTemplate \<Rightarrow> string list \<Rightarrow> WorkflowSuggestion" where
  "calculate_workflow_confidence workflow_name template detected_items =
     (let trigs = t_triggers template;
          strong_matches = common_count (strong trigs) detected_items;
          medium_matches = common_count (medium trigs) detected_items;
          weak_matches = common_count (weak trigs) detected_items;
          conf =
            real strong_matches * strong_signal +
            real medium_matches * medium_signal +
            real weak_matches * weak_signal;
          conf = min conf 1.0;
          reasoning_text =
            generate_reasoning strong_matches medium_matches weak_matches trigs detected_items;
          matching_triggers =
            concat (map (\<lambda>level. matched_items level detected_items)
                        [strong trigs, medium trigs, weak trigs])
      in \<lparr> name = workflow_name,
           confidence = conf,
           reasoning = reasoning_text,
           category = (case t_category template of Some c \<Rightarrow> c | None \<Rightarrow> ''general''),
           estimated_time =
             (case t_estimated_time template of Some c \<Rightarrow> c | None \<Rightarrow> ''30-60 minutes''),
           prerequisites = (case t_prerequisites template of Some p \<Rightarrow> p | None \<Rightarrow> []),
           triggers = matching_triggers \<rparr>)"

text \<open>
  \<open>suggestions.sort(key=lambda x: x.confidence, reverse=True)\<close>: a stable sort,
  descending by confidence; an element moves in front of the elements that follow it only
  when its confidence is strictly greater.
\<close>

fun insert_desc :: "WorkflowSuggestion \<Rightarrow> WorkflowSuggestion list \<Rightarrow> WorkflowSuggestion list" where
  "insert_desc x [] = [x]"
| "insert_desc x (y # ys) =
     (if confidence y \<le> confidence x then x # y # ys else y # insert_desc x ys)"

fun sort_desc :: "WorkflowSuggestion list \<Rightarrow> WorkflowSuggestion list" where
  "sort_desc [] = []"
| "sort_desc (x # xs) = insert_desc x (sort_desc xs)"

text \<open>The loop of \<open>match_workflows\<close> over \<open>self.workflow_templates.items()\<close>.\<close>

fun collect_suggestions ::
  "(string \<times> WorkflowTemplate) list \<Rightarrow> string list \<Rightarrow> WorkflowSuggestion list" where
  "collect_suggestions [] detected_items = []"
| "collect_suggestions ((workflow_name, template) # rest) detected_items =
     (let suggestion = calculate_workflow_confidence workflow_name template detected_items
      in if confidence suggestion \<ge> 0.3
         then suggestion # collect_suggestions rest detected_items
         else collect_suggestions rest detected_items)"

text \<open>
  \<open>match_workflows\<close>; the first argument is \<open>self.workflow_templates\<close>, which
  \<open>__init__\<close> sets to \<open>load_workflow_templates\<close>.
\<close>

definition match_workflows ::
  "(string \<times> WorkflowTemplate) list \<Rightarrow> AnalysisResults \<Rightarrow> WorkflowSuggestion list" where
  "match_workflows workflow_templates analysis_results =
     (let detected_items =
            extract_detected_items (dependencies analysis_results)
                                   (structure_patterns analysis_results)
      in sort_desc (collect_suggestions workflow_templates detected_items))"

text \<open>\<open>get_workflow_details\<close>: \<open>self.workflow_templates.get(workflow_name)\<close>\<close>

definition get_workflow_details ::
  "(string \<times> WorkflowTemplate) list \<Rightarrow> string \<Rightarrow> WorkflowTemplate option" where
  "get_workflow_details workflow_templates workflow_name = map_of workflow_templates workflow_name"

section \<open>Auxiliary notions\<close>

text \<open>
  The value of the local variable \<open>confidence\<close> of
  \<open>_calculate_workflow_confidence\<close> before the cap, as a function of its own.
\<close>

definition raw_confidence :: "Triggers \<Rightarrow> string list \<Rightarrow> real" where
  "raw_confidence trigs detected_items =
     real (common_count (strong trigs) detected_items) * strong_signal +
     real (common_count (medium trigs) detected_items) * medium_signal +
     real (common_count (weak trigs) detected_items) * weak_signal"

text \<open>All the trigger strings of a template, tier after tier.\<close>

definition all_triggers :: "Triggers \<Rightarrow> string list" where
  "all_triggers trigs = strong trigs @ medium trigs @ weak trigs"

text \<open>Every trigger is declared in lower case, as every trigger of the catalog is.\<close>

definition lowercase_triggers :: "Triggers \<Rightarrow> bool" where
  "lowercase_triggers trigs = list_all (\<lambda>t. lower t = t) (all_triggers trigs)"

section \<open>The specification's wording\<close>

text \<open>
  The number of matches of a tier as the specification words it: the size of the
  intersection of the tier with the signal set, two strings being the same when they are
  equal up to case.
\<close>

definition ci_match_count :: "string list \<Rightarrow> string list \<Rightarrow> nat" where
  "ci_match_count ts signals = card (lower ` set ts \<inter> lower ` set signals)"

definition spec_confidence :: "Triggers \<Rightarrow> string list \<Rightarrow> real" where
  "spec_confidence trigs signals =
     min (real (ci_match_count (strong trigs) signals) * 0.9 +
          real (ci_match_count (medium trigs) signals) * 0.7 +
          real (ci_match_count (weak trigs) signals) * 0.5) 1.0"

text \<open>
  The token set of the flattener as the specification words it: the category of a
  dependency counts only when it is not \<open>''unknown''\<close>, and so does the architecture.
\<close>

definition spec_flatten :: "DependencyInfo list \<Rightarrow> Patterns \<Rightarrow> string set" where
  "spec_flatten deps pats =
     lower ` (dep_name ` set deps \<union>
              (Option.these (dep_category ` set deps) - {''unknown''}) \<union>
              set (frameworks pats) \<union> set (project_types pats) \<union> set (key_patterns pats) \<union>
              (if architecture pats = ''unknown'' then {} else {architecture pats}))"

text \<open>
  The token set the flattener computes: every category that is present counts, and the
  architecture counts when it is neither empty nor \<open>''unknown''\<close>.
\<close>

definition flatten_tokens :: "DependencyInfo list \<Rightarrow> Patterns \<Rightarrow> string set" where
  "flatten_tokens deps pats =
     lower ` (dep_name ` set deps \<union>
              Option.these (dep_category ` set deps) \<union>
              set (frameworks pats) \<union> set (project_types pats) \<union> set (key_patterns pats) \<union>
              (if architecture pats = [] \<or> architecture pats = ''unknown'' then {}
               else {architecture pats}))"

text \<open>
  The reasoning string as the specification words it: the matched triggers of a tier are
  its declared triggers that equal some signal up to case, a tier has a clause when it has
  such a trigger, and the clauses come in the order strong, medium, weak.
\<close>

definition ci_matched :: "string list \<Rightarrow> string list \<Rightarrow> string list" where
  "ci_matched ts signals = filter (\<lambda>t. lower t \<in> lower ` set signals) ts"

definition tier_clause :: "string \<Rightarrow> string list \<Rightarrow> string list" where
  "tier_clause label matched = (if matched = [] then [] else [label @ join '', '' matched])"

definition reasoning_clauses :: "Triggers \<Rightarrow> string list \<Rightarrow> string list" where
  "reasoning_clauses trigs signals =
     tier_clause ''Strong indicators: '' (ci_matched (strong trigs) signals) @
     tier_clause ''Supporting indicators: '' (ci_matched (medium trigs) signals) @
     tier_clause ''Additional indicators: '' (ci_matched (weak trigs) signals)"

definition spec_reasoning :: "Triggers \<Rightarrow> string list \<Rightarrow> string" where
  "spec_reasoning trigs signals =
     (if reasoning_clauses trigs signals = []
      then ''General recommendation based on project structure''
      else join '' | '' (reasoning_clauses trigs signals))"

section \<open>Example inputs\<close>

text \<open>
  The analysis of the example at the end of workflow_matcher.py, its three dependencies
  as \<open>DependencyInfo\<close> objects.
\<close>

definition example_analysis :: AnalysisResults where
  "example_analysis =
     \<lparr> dependencies =
         [\<lparr> dep_name = ''react'', dep_version = None, dep_type = ''unknown'',
            dep_category = Some ''frontend'' \<rparr>,
          \<lparr> dep_name = ''express'', dep_version = None, dep_type = ''unknown'',
            dep_category = Some ''backend'' \<rparr>,
          \<lparr> dep_name = ''jest'', dep_version = None, dep_type = ''unknown'',
            dep_category = Some ''testing'' \<rparr>],
       structure_patterns =
         \<lparr> frameworks = [''component-based'', ''api-driven'', ''test-driven''],
           project_types = [''ci-cd-enabled''], key_patterns = [],
           architecture = ''full-stack'' \<rparr> \<rparr>"

text \<open>The signal set of the specification's worked example.\<close>

definition example_signals :: "string list" where
  "example_signals =
     [''react'', ''express'', ''jest'', ''component-based'', ''api-driven'', ''test-driven'',
      ''full-stack'']"

section \<open>Basic facts\<close>

subsection \<open>Lower-casing\<close>

lemma lower_char_letters:
  "map lower_char ''ABCDEFGHIJKLMNOPQRSTUVWXYZ'' = ''abcdefghijklmnopqrstuvwxyz''"
  by simp

lemma lower_char_other:
  "c \<notin> set ''ABCDEFGHIJKLMNOPQRSTUVWXYZ'' \<Longrightarrow> lower_char c = c"
proof -
  obtain b0 b1 b2 b3 b4 b5 b6 b7 where c: "c = Char b0 b1 b2 b3 b4 b5 b6 b7"
    by (cases c)
  show "c \<notin> set ''ABCDEFGHIJKLMNOPQRSTUVWXYZ'' \<Longrightarrow> lower_char c = c"
    unfolding c
    by (cases b7; cases b6; cases b5; cases b4; cases b3; cases b2; cases b1; cases b0; simp)
qed

lemma lower_char_idem: "lower_char (lower_char c) = lower_char c"
  by (cases c) simp

lemma lower_idem: "lower (lower s) = lower s"
  by (simp add: lower_def lower_char_idem)

lemma lower_image_id: "\<forall>t\<in>set ts. lower t = t \<Longrightarrow> lower ` set ts = set ts"
  by force

subsection \<open>The flattener\<close>

lemma set_extract_dependencies:
  "set (extract_dependencies deps) =
     lower ` (dep_name ` set deps \<union> Option.these (dep_category ` set deps))"
proof (induction deps)
  case Nil
  show ?case by simp
next
  case (Cons dep deps)
  show ?case
  proof (cases "dep_category dep")
    case None
    then show ?thesis
      using Cons.IH by simp
  next
    case (Some c)
    then show ?thesis
      using Cons.IH by auto
  qed
qed

lemma lower_extract_dependencies:
  "s \<in> set (extract_dependencies deps) \<Longrightarrow> lower s = s"
  by (auto simp: set_extract_dependencies lower_idem)

lemma set_extract_detected_items:
  "set (extract_detected_items deps pats) = flatten_tokens deps pats"
proof -
  have idem: "lower ` lower ` A = lower ` A" for A
    by (simp add: image_image lower_idem)
  show ?thesis
    by (simp add: extract_detected_items_def flatten_tokens_def Let_def image_Un
        set_extract_dependencies idem Un_assoc)
qed

lemma extract_detected_items_lower:
  "s \<in> set (extract_detected_items deps pats) \<Longrightarrow> lower s = s"
  by (auto simp: extract_detected_items_def Let_def lower_idem)

subsection \<open>Counting and scoring\<close>

lemma common_count_filter:
  "common_count ts items = length (remdups (filter (\<lambda>t. t \<in> set items) ts))"
proof -
  have "set ts \<inter> set items = set (filter (\<lambda>t. t \<in> set items) ts)"
    by auto
  then show ?thesis
    by (simp only: common_count_def length_remdups_card_conv)
qed

lemma common_count_zero_iff: "common_count ts items = 0 \<longleftrightarrow> set ts \<inter> set items = {}"
  by (simp add: common_count_def)

lemma common_count_mono:
  "set items \<subseteq> set items' \<Longrightarrow> common_count ts items \<le> common_count ts items'"
  unfolding common_count_def by (intro card_mono) auto

lemma common_count_member:
  "t \<in> set ts \<Longrightarrow> t \<in> set items \<Longrightarrow> 1 \<le> common_count ts items"
  using common_count_zero_iff [of ts items] by (cases "common_count ts items") auto

lemma common_count_single: "common_count ts [t] = (if t \<in> set ts then 1 else 0)"
  by (simp add: common_count_def)

lemma raw_confidence_nonneg: "0 \<le> raw_confidence trigs items"
  by (simp add: raw_confidence_def strong_signal_def medium_signal_def weak_signal_def)

lemma raw_confidence_mono:
  assumes "set items \<subseteq> set items'"
  shows "raw_confidence trigs items \<le> raw_confidence trigs items'"
  unfolding raw_confidence_def strong_signal_def medium_signal_def weak_signal_def
  by (intro add_mono mult_right_mono) (simp_all add: common_count_mono [OF assms])

lemma confidence_calculate:
  "confidence (calculate_workflow_confidence n tpl items) =
     min (raw_confidence (t_triggers tpl) items) 1"
  by (simp add: calculate_workflow_confidence_def raw_confidence_def Let_def)

lemma name_calculate: "name (calculate_workflow_confidence n tpl items) = n"
  by (simp add: calculate_workflow_confidence_def Let_def)

lemma triggers_calculate:
  "triggers (calculate_workflow_confidence n tpl items) =
     matched_items (strong (t_triggers tpl)) items @
     matched_items (medium (t_triggers tpl)) items @
     matched_items (weak (t_triggers tpl)) items"
  by (simp add: calculate_workflow_confidence_def Let_def)

lemma reasoning_calculate:
  "reasoning (calculate_workflow_confidence n tpl items) =
     generate_reasoning (common_count (strong (t_triggers tpl)) items)
       (common_count (medium (t_triggers tpl)) items)
       (common_count (weak (t_triggers tpl)) items) (t_triggers tpl) items"
  by (simp add: calculate_workflow_confidence_def Let_def)

lemma raw_confidence_zero:
  assumes "set (all_triggers trigs) \<inter> set items = {}"
  shows "raw_confidence trigs items = 0"
proof -
  have "common_count (strong trigs) items = 0" "common_count (medium trigs) items = 0"
    "common_count (weak trigs) items = 0"
    using assms by (auto simp: common_count_zero_iff all_triggers_def)
  then show ?thesis
    by (simp add: raw_confidence_def)
qed

lemma raw_confidence_half:
  assumes "set (all_triggers trigs) \<inter> set items \<noteq> {}"
  shows "0.5 \<le> raw_confidence trigs items"
proof -
  obtain t where t: "t \<in> set (all_triggers trigs)" "t \<in> set items"
    using assms by auto
  define s where "s = real (common_count (strong trigs) items)"
  define m where "m = real (common_count (medium trigs) items)"
  define w where "w = real (common_count (weak trigs) items)"
  have nonneg: "0 \<le> s" "0 \<le> m" "0 \<le> w"
    by (simp_all add: s_def m_def w_def)
  have "1 \<le> s \<or> 1 \<le> m \<or> 1 \<le> w"
    using t common_count_member [of t _ items]
    by (fastforce simp: all_triggers_def s_def m_def w_def)
  then have "0.5 \<le> s * 0.9 + m * 0.7 + w * 0.5"
    using nonneg by linarith
  then show ?thesis
    by (simp add: raw_confidence_def strong_signal_def medium_signal_def weak_signal_def
        s_def m_def w_def)
qed

lemma floor_iff_match:
  "0.3 \<le> confidence (calculate_workflow_confidence n tpl items) \<longleftrightarrow>
     set (all_triggers (t_triggers tpl)) \<inter> set items \<noteq> {}"
proof (cases "set (all_triggers (t_triggers tpl)) \<inter> set items = {}")
  case True
  then show ?thesis
    by (simp add: confidence_calculate raw_confidence_zero)
next
  case False
  have "0.5 \<le> raw_confidence (t_triggers tpl) items"
    using raw_confidence_half [OF False] .
  then have "0.3 \<le> min (raw_confidence (t_triggers tpl) items) 1"
    by simp
  with False show ?thesis
    by (simp only: confidence_calculate simp_thms)
qed

lemma floor_imp_half:
  assumes "0.3 \<le> confidence (calculate_workflow_confidence n tpl items)"
  shows "0.5 \<le> confidence (calculate_workflow_confidence n tpl items)"
proof -
  have "set (all_triggers (t_triggers tpl)) \<inter> set items \<noteq> {}"
    using assms floor_iff_match [of n tpl items] by blast
  then have "0.5 \<le> raw_confidence (t_triggers tpl) items"
    by (rule raw_confidence_half)
  then show ?thesis
    by (simp add: confidence_calculate)
qed

subsection \<open>The loop and the sort\<close>

lemma collect_suggestions_filter:
  "collect_suggestions ts items =
     filter (\<lambda>s. 0.3 \<le> confidence s)
       (map (\<lambda>(n, tpl). calculate_workflow_confidence n tpl items) ts)"
  by (induction ts items rule: collect_suggestions.induct) (simp_all add: Let_def)

lemma set_insert_desc: "set (insert_desc x ys) = insert x (set ys)"
  by (induction ys) auto

lemma set_sort_desc: "set (sort_desc xs) = set xs"
  by (induction xs) (simp_all add: set_insert_desc)

lemma sorted_insert_desc:
  "sorted_wrt (\<lambda>a b. confidence b \<le> confidence a) ys \<Longrightarrow>
   sorted_wrt (\<lambda>a b. confidence b \<le> confidence a) (insert_desc x ys)"
  by (induction ys) (auto simp: set_insert_desc)

lemma sorted_sort_desc: "sorted_wrt (\<lambda>a b. confidence b \<le> confidence a) (sort_desc xs)"
  by (induction xs) (simp_all add: sorted_insert_desc)

lemma filter_insert_desc:
  "filter (\<lambda>s. confidence s = c) (insert_desc x ys) =
     (if confidence x = c then x # filter (\<lambda>s. confidence s = c) ys
      else filter (\<lambda>s. confidence s = c) ys)"
  by (induction ys) auto

lemma filter_sort_desc:
  "filter (\<lambda>s. confidence s = c) (sort_desc xs) = filter (\<lambda>s. confidence s = c) xs"
  by (induction xs) (simp_all add: filter_insert_desc)

lemma set_match_workflows:
  "set (match_workflows ts a) =
     {calculate_workflow_confidence n tpl
        (extract_detected_items (dependencies a) (structure_patterns a)) | n tpl.
      (n, tpl) \<in> set ts \<and>
      0.3 \<le> confidence (calculate_workflow_confidence n tpl
               (extract_detected_items (dependencies a) (structure_patterns a)))}"
  by (auto simp: match_workflows_def Let_def set_sort_desc collect_suggestions_filter)

lemma emitted_name_iff:
  assumes "(n, tpl) \<in> set ts" and "distinct (map fst ts)"
  shows "(\<exists>s\<in>set (match_workflows ts a). name s = n) \<longleftrightarrow>
         0.3 \<le> confidence (calculate_workflow_confidence n tpl
                   (extract_detected_items (dependencies a) (structure_patterns a)))"
proof
  assume "\<exists>s\<in>set (match_workflows ts a). name s = n"
  then obtain n' tpl' where in_ts: "(n', tpl') \<in> set ts"
    and nm: "name (calculate_workflow_confidence n' tpl'
               (extract_detected_items (dependencies a) (structure_patterns a))) = n"
    and fl: "0.3 \<le> confidence (calculate_workflow_confidence n' tpl'
               (extract_detected_items (dependencies a) (structure_patterns a)))"
    unfolding set_match_workflows by blast
  from nm have "n' = n"
    by (simp add: name_calculate)
  with in_ts assms have "tpl' = tpl"
    by (meson eq_key_imp_eq_value)
  with fl \<open>n' = n\<close> show "0.3 \<le> confidence (calculate_workflow_confidence n tpl
      (extract_detected_items (dependencies a) (structure_patterns a)))"
    by simp
next
  assume "0.3 \<le> confidence (calculate_workflow_confidence n tpl
      (extract_detected_items (dependencies a) (structure_patterns a)))"
  with assms(1) have "calculate_workflow_confidence n tpl
      (extract_detected_items (dependencies a) (structure_patterns a)) \<in> set (match_workflows ts a)"
    unfolding set_match_workflows by blast
  then show "\<exists>s\<in>set (match_workflows ts a). name s = n"
    using name_calculate by blast
qed

lemma emitted_origin:
  assumes "s \<in> set (match_workflows ts a)"
  shows "\<exists>n tpl. (n, tpl) \<in> set ts \<and>
           s = calculate_workflow_confidence n tpl
                 (extract_detected_items (dependencies a) (structure_patterns a)) \<and>
           0.3 \<le> confidence s"
  using assms unfolding set_match_workflows by blast

subsection \<open>Matched triggers and the reasoning string\<close>

lemma count_list_filter:
  "count_list (filter P xs) t = (if P t then count_list xs t else 0)"
  by (induction xs) auto

lemma count_list_distinct: "distinct xs \<Longrightarrow> count_list xs t = (if t \<in> set xs then 1 else 0)"
  by (induction xs) auto

lemma ci_matched_lowercase:
  assumes "\<forall>s\<in>set items. lower s = s"
  shows "ci_matched ts items = matched_items ts items"
  using assms by (simp add: ci_matched_def matched_items_def lower_image_id)

lemma ci_match_count_lowercase:
  assumes "\<forall>t\<in>set ts. lower t = t" and "\<forall>s\<in>set items. lower s = s"
  shows "ci_match_count ts items = common_count ts items"
  using assms by (simp add: ci_match_count_def common_count_def lower_image_id)

lemma lowercase_triggers_iff:
  "lowercase_triggers trigs \<longleftrightarrow>
     (\<forall>t\<in>set (strong trigs). lower t = t) \<and> (\<forall>t\<in>set (medium trigs). lower t = t) \<and>
     (\<forall>t\<in>set (weak trigs). lower t = t)"
  by (auto simp: lowercase_triggers_def all_triggers_def list_all_iff)

lemma spec_confidence_lowercase:
  assumes "lowercase_triggers trigs" and "\<forall>s\<in>set items. lower s = s"
  shows "spec_confidence trigs items = min (raw_confidence trigs items) 1"
  using assms
  by (simp add: spec_confidence_def raw_confidence_def lowercase_triggers_iff
      ci_match_count_lowercase strong_signal_def medium_signal_def weak_signal_def)

lemma common_count_pos_iff_matched:
  assumes "\<forall>t\<in>set ts. lower t = t"
  shows "0 < common_count ts items \<longleftrightarrow> matched_items ts items \<noteq> []"
proof -
  have "0 < common_count ts items \<longleftrightarrow> set ts \<inter> set items \<noteq> {}"
    using common_count_zero_iff [of ts items] by auto
  also have "\<dots> \<longleftrightarrow> (\<exists>t\<in>set ts. lower t \<in> set items)"
    using assms by auto
  also have "\<dots> \<longleftrightarrow> matched_items ts items \<noteq> []"
    by (simp add: matched_items_def filter_empty_conv)
  finally show ?thesis .
qed

lemma generate_reasoning_clauses:
  "generate_reasoning s m w trigs items =
     (let parts =
        (if 0 < s then [''Strong indicators: '' @ join '', '' (matched_items (strong trigs) items)]
         else []) @
        (if 0 < m then [''Supporting indicators: '' @ join '', '' (matched_items (medium trigs) items)]
         else []) @
        (if 0 < w then [''Additional indicators: '' @ join '', '' (matched_items (weak trigs) items)]
         else [])
      in if parts = [] then ''General recommendation based on project structure''
         else join '' | '' parts)"
  by (simp add: generate_reasoning_def Let_def)

lemma reasoning_lowercase:
  assumes "lowercase_triggers (t_triggers tpl)" and "\<forall>s\<in>set items. lower s = s"
  shows "reasoning (calculate_workflow_confidence n tpl items) =
         spec_reasoning (t_triggers tpl) items"
proof -
  have low: "\<forall>t\<in>set (strong (t_triggers tpl)). lower t = t"
    "\<forall>t\<in>set (medium (t_triggers tpl)). lower t = t"
    "\<forall>t\<in>set (weak (t_triggers tpl)). lower t = t"
    using assms(1) by (simp_all add: lowercase_triggers_iff)
  show ?thesis
    unfolding reasoning_calculate generate_reasoning_clauses spec_reasoning_def
      reasoning_clauses_def tier_clause_def
    by (simp only: common_count_pos_iff_matched [OF low(1)]
        common_count_pos_iff_matched [OF low(2)] common_count_pos_iff_matched [OF low(3)]
        ci_matched_lowercase [OF assms(2)] Let_def if_not_P if_P not_not split: if_splits)
      (simp add: Let_def)
qed

lemma join_nonempty: "xs \<noteq> [] \<Longrightarrow> hd xs \<noteq> [] \<Longrightarrow> join sep xs \<noteq> []"
  by (induction sep xs rule: join.induct) simp_all

lemma reasoning_clauses_hd:
  "reasoning_clauses trigs items \<noteq> [] \<Longrightarrow> hd (reasoning_clauses trigs items) \<noteq> []"
  by (auto simp: reasoning_clauses_def tier_clause_def)

lemma spec_reasoning_nonempty: "spec_reasoning trigs items \<noteq> []"
  by (simp add: spec_reasoning_def join_nonempty reasoning_clauses_hd)

lemma length_reasoning_clauses: "length (reasoning_clauses trigs items) \<le> 3"
  by (simp add: reasoning_clauses_def tier_clause_def)

subsection \<open>Evaluation\<close>

lemmas scorer_defs =
  calculate_workflow_confidence_def generate_reasoning_def matched_items_def
  common_count_filter strong_signal_def medium_signal_def weak_signal_def Let_def lower_def

lemmas template_defs =
  component_library_def storybook_setup_def frontend_testing_def api_documentation_def
  database_schema_def database_migration_def full_stack_documentation_def test_coverage_def
  api_testing_def documentation_generation_def knowledge_base_def deployment_pipeline_def
  docker_setup_def code_quality_def performance_optimization_def

lemma catalog_lowercase:
  "list_all (\<lambda>(n, tpl). lowercase_triggers (t_triggers tpl)) load_workflow_templates"
  by (simp add: load_workflow_templates_def template_defs mk_template_def
      lowercase_triggers_def all_triggers_def lower_def)

lemma catalog_lowercase_member:
  "(n, tpl) \<in> set load_workflow_templates \<Longrightarrow> lowercase_triggers (t_triggers tpl)"
  using catalog_lowercase by (auto simp: list_all_iff)

lemma catalog_distinct: "distinct (map fst load_workflow_templates)"
  by (simp add: load_workflow_templates_def)

text \<open>No tier of a template of the catalog declares a trigger twice.\<close>

lemma catalog_tiers_distinct:
  "list_all (\<lambda>(n, tpl). distinct (strong (t_triggers tpl)) \<and>
      distinct (medium (t_triggers tpl)) \<and> distinct (weak (t_triggers tpl)))
     load_workflow_templates"
  by (simp add: load_workflow_templates_def template_defs mk_template_def)

lemma catalog_tiers_distinct_member:
  assumes "(n, tpl) \<in> set load_workflow_templates"
  shows "distinct (strong (t_triggers tpl))" "distinct (medium (t_triggers tpl))"
    "distinct (weak (t_triggers tpl))"
  using assms catalog_tiers_distinct by (auto simp: list_all_iff)

lemma count_matched_items:
  assumes "distinct ts" and "\<forall>x\<in>set ts. lower x = x" and "t \<in> set items"
  shows "count_list (matched_items ts items) t = (if t \<in> set ts then 1 else 0)"
proof (cases "t \<in> set ts")
  case True
  then have "lower t = t"
    using assms(2) by simp
  then show ?thesis
    using assms(1,3) by (simp add: matched_items_def count_list_filter count_list_distinct)
next
  case False
  then show ?thesis
    using assms(1) by (simp add: matched_items_def count_list_filter count_list_distinct)
qed

lemma example_detected_items:
  "extract_detected_items (dependencies example_analysis) (structure_patterns example_analysis) =
     [''react'', ''frontend'', ''express'', ''backend'', ''jest'', ''testing'',
      ''component-based'', ''api-driven'', ''test-driven'', ''ci-cd-enabled'', ''full-stack'']"
  by (simp add: example_analysis_def extract_detected_items_def lower_def)

text \<open>The confidence of each template of the catalog on the example analysis.\<close>

lemma example_confidence:
  "confidence (calculate_workflow_confidence n component_library
     (extract_detected_items (dependencies example_analysis)
        (structure_patterns example_analysis))) = 9/10"
  "confidence (calculate_workflow_confidence n storybook_setup
     (extract_detected_items (dependencies example_analysis)
        (structure_patterns example_analysis))) = 7/10"
  "confidence (calculate_workflow_confidence n frontend_testing
     (extract_detected_items (dependencies example_analysis)
        (structure_patterns example_analysis))) = 9/10"
  "confidence (calculate_workflow_confidence n api_documentation
     (extract_detected_items (dependencies example_analysis)
        (structure_patterns example_analysis))) = 1"
  "confidence (calculate_workflow_confidence n database_schema
     (extract_detected_items (dependencies example_analysis)
        (structure_patterns example_analysis))) = 0"
  "confidence (calculate_workflow_confidence n database_migration
     (extract_detected_items (dependencies example_analysis)
        (structure_patterns example_analysis))) = 0"
  "confidence (calculate_workflow_confidence n full_stack_documentation
     (extract_detected_items (dependencies example_analysis)
        (structure_patterns example_analysis))) = 1"
  "confidence (calculate_workflow_confidence n test_coverage
     (extract_detected_items (dependencies example_analysis)
        (structure_patterns example_analysis))) = 1"
  "confidence (calculate_workflow_confidence n api_testing
     (extract_detected_items (dependencies example_analysis)
        (structure_patterns example_analysis))) = 1"
  "confidence (calculate_workflow_confidence n documentation_generation
     (extract_detected_items (dependencies example_analysis)
        (structure_patterns example_analysis))) = 0"
  "confidence (calculate_workflow_confidence n knowledge_base
     (extract_detected_items (dependencies example_analysis)
        (structure_patterns example_analysis))) = 0"
  "confidence (calculate_workflow_confidence n deployment_pipeline
     (extract_detected_items (dependencies example_analysis)
        (structure_patterns example_analysis))) = 0"
  "confidence (calculate_workflow_confidence n docker_setup
     (extract_detected_items (dependencies example_analysis)
        (structure_patterns example_analysis))) = 0"
  "confidence (calculate_workflow_confidence n code_quality
     (extract_detected_items (dependencies example_analysis)
        (structure_patterns example_analysis))) = 0"
  "confidence (calculate_workflow_confidence n performance_optimization
     (extract_detected_items (dependencies example_analysis)
        (structure_patterns example_analysis))) = 0"
  by (simp_all add: confidence_calculate raw_confidence_def example_detected_items template_defs
      mk_template_def common_count_filter strong_signal_def medium_signal_def weak_signal_def)

section \<open>Claims\<close>

text \<open>
  C1: the workflow templates of the matcher are those of \<open>load_workflow_templates\<close>, which
  \<open>__init__\<close> stores and \<open>match_workflows\<close> scores one after the other. For each of them
  and every flattened signal list, the confidence of the suggestion is the minimum of 1 and
  0.9, 0.7 and 0.5 times the numbers of strong, medium and weak triggers that occur in the
  signal set, strings compared up to case.
\<close>

theorem C1_confidence_formula:
  assumes "(n, tpl) \<in> set load_workflow_templates"
  shows "confidence (calculate_workflow_confidence n tpl (extract_detected_items deps pats)) =
         spec_confidence (t_triggers tpl) (extract_detected_items deps pats)"
proof -
  have "lowercase_triggers (t_triggers tpl)"
    using assms by (rule catalog_lowercase_member)
  then show ?thesis
    by (simp add: confidence_calculate spec_confidence_lowercase extract_detected_items_lower)
qed

text \<open>
  The catalog's component-library on the example analysis: the confidence is 0.9, and so
  is the value of the formula.
\<close>

theorem C1_confidence_formula_witness:
  "(''component-library'', component_library) \<in> set load_workflow_templates \<and>
   confidence (calculate_workflow_confidence ''component-library'' component_library
      (extract_detected_items (dependencies example_analysis)
         (structure_patterns example_analysis))) = 0.9 \<and>
   spec_confidence (t_triggers component_library)
      (extract_detected_items (dependencies example_analysis)
         (structure_patterns example_analysis)) = 0.9"
proof -
  have mem: "(''component-library'', component_library) \<in> set load_workflow_templates"
    by (simp add: load_workflow_templates_def)
  have val: "confidence (calculate_workflow_confidence ''component-library'' component_library
      (extract_detected_items (dependencies example_analysis)
         (structure_patterns example_analysis))) = 0.9"
    by (simp add: example_confidence)
  show ?thesis
    using mem val C1_confidence_formula [OF mem, of "dependencies example_analysis"
        "structure_patterns example_analysis"]
    by simp
qed

text \<open>
  C2: a template of the matcher's table has a suggestion in the output of
  \<open>match_workflows\<close> exactly when its confidence is at least 0.3, and no suggestion of
  the output has a confidence below 0.3.
\<close>

theorem C2_emitted_iff_floor:
  assumes "(n, tpl) \<in> set ts" and "distinct (map fst ts)"
  shows "((\<exists>s\<in>set (match_workflows ts a). name s = n) \<longleftrightarrow>
          0.3 \<le> confidence (calculate_workflow_confidence n tpl
                    (extract_detected_items (dependencies a) (structure_patterns a)))) \<and>
         (\<forall>s\<in>set (match_workflows ts a). 0.3 \<le> confidence s)"
  using emitted_name_iff [OF assms] emitted_origin by blast

text \<open>
  On the example analysis the catalog's component-library (confidence 0.9) is in the
  output and its database-schema (confidence 0) is not.
\<close>

theorem C2_emitted_iff_floor_witness:
  "(''component-library'', component_library) \<in> set load_workflow_templates \<and>
   (''database-schema'', database_schema) \<in> set load_workflow_templates \<and>
   distinct (map fst load_workflow_templates) \<and>
   (\<exists>s\<in>set (match_workflows load_workflow_templates example_analysis).
      name s = ''component-library'') \<and>
   \<not> (\<exists>s\<in>set (match_workflows load_workflow_templates example_analysis).
      name s = ''database-schema'')"
proof -
  have m0: "(''component-library'', component_library) \<in> set load_workflow_templates"
    by (simp add: load_workflow_templates_def)
  have m4: "(''database-schema'', database_schema) \<in> set load_workflow_templates"
    by (simp add: load_workflow_templates_def)
  have v0: "0.3 \<le> confidence (calculate_workflow_confidence ''component-library''
      component_library
      (extract_detected_items (dependencies example_analysis)
         (structure_patterns example_analysis)))"
    by (simp add: example_confidence)
  have v4: "\<not> 0.3 \<le> confidence (calculate_workflow_confidence ''database-schema''
      database_schema
      (extract_detected_items (dependencies example_analysis)
         (structure_patterns example_analysis)))"
    by (simp add: example_confidence)
  show ?thesis
    using v0 v4 m0 m4 catalog_distinct
      C2_emitted_iff_floor [OF m0 catalog_distinct, of example_analysis]
      C2_emitted_iff_floor [OF m4 catalog_distinct, of example_analysis]
    by blast
qed

text \<open>
  C3: for every template and every list of detected items, whatever its size and however
  many triggers match, the confidence of the suggestion lies in the closed interval from
  0 to 1.
\<close>

theorem C3_confidence_in_unit_interval:
  "0 \<le> confidence (calculate_workflow_confidence n tpl items) \<and>
   confidence (calculate_workflow_confidence n tpl items) \<le> 1"
  using raw_confidence_nonneg [of "t_triggers tpl" items]
  by (simp add: confidence_calculate)

text \<open>
  C4: for every template, adding a token to the signal set never lowers the confidence.
\<close>

theorem C4_confidence_monotone:
  assumes "set items' = insert t (set items)"
  shows "confidence (calculate_workflow_confidence n tpl items) \<le>
         confidence (calculate_workflow_confidence n tpl items')"
proof -
  have "set items \<subseteq> set items'"
    using assms by auto
  then have "raw_confidence (t_triggers tpl) items \<le> raw_confidence (t_triggers tpl) items'"
    by (rule raw_confidence_mono)
  then show ?thesis
    by (simp only: confidence_calculate min.mono order_refl)
qed

text \<open>
  Adding jest to the signals react, express raises the confidence of the catalog's
  frontend-testing from 0 to 0.9.
\<close>

theorem C4_confidence_monotone_witness:
  "set [''jest'', ''react'', ''express''] = insert ''jest'' (set [''react'', ''express'']) \<and>
   confidence (calculate_workflow_confidence ''frontend-testing''
      frontend_testing [''react'', ''express''])
   \<le> confidence (calculate_workflow_confidence ''frontend-testing''
      frontend_testing [''jest'', ''react'', ''express''])"
proof -
  have eq: "set [''jest'', ''react'', ''express''] = insert ''jest'' (set [''react'', ''express''])"
    by simp
  show ?thesis
    using eq C4_confidence_monotone [OF eq, of "''frontend-testing''"
        frontend_testing]
    by blast
qed

text \<open>
  C5: the dependency analyzer gives a package it has no mapping for the category
  \<open>unknown\<close>. On such a dependency the flattener adds the token unknown to the signal
  list, where the token set of the specification leaves the placeholder out; the
  architecture of the same input, which is unknown too, adds nothing.
\<close>

theorem C5_unknown_category_token:
  "extract_detected_items
     [\<lparr> dep_name = ''lodash'', dep_version = Some ''4.17.21'', dep_type = ''production'',
        dep_category = Some ''unknown'' \<rparr>]
     \<lparr> frameworks = [], project_types = [], key_patterns = [], architecture = ''unknown'' \<rparr>
     = [''lodash'', ''unknown''] \<and>
   spec_flatten
     [\<lparr> dep_name = ''lodash'', dep_version = Some ''4.17.21'', dep_type = ''production'',
        dep_category = Some ''unknown'' \<rparr>]
     \<lparr> frameworks = [], project_types = [], key_patterns = [], architecture = ''unknown'' \<rparr>
     = {''lodash''} \<and>
   extract_detected_items []
     \<lparr> frameworks = [], project_types = [], key_patterns = [], architecture = ''unknown'' \<rparr>
     = []"
  by (simp add: extract_detected_items_def spec_flatten_def lower_def)

text \<open>
  C6: the output of \<open>match_workflows\<close> is sorted by descending confidence, and the
  suggestions of any one confidence come in the order of their templates in the matcher's
  table.
\<close>

theorem C6_sorted_descending_stable:
  "sorted_wrt (\<lambda>s1 s2. confidence s2 \<le> confidence s1) (match_workflows ts a) \<and>
   map name (filter (\<lambda>s. confidence s = c) (match_workflows ts a)) =
     map fst (filter (\<lambda>(n, tpl). confidence (calculate_workflow_confidence n tpl
                (extract_detected_items (dependencies a) (structure_patterns a))) = c \<and>
                0.3 \<le> c) ts)"
proof -
  have "map name (filter (\<lambda>s. confidence s = c) (filter (\<lambda>s. 0.3 \<le> confidence s)
          (map (\<lambda>(n, tpl). calculate_workflow_confidence n tpl items) ts))) =
        map fst (filter (\<lambda>(n, tpl). confidence (calculate_workflow_confidence n tpl items) = c \<and>
                   0.3 \<le> c) ts)" for items
    by (induction ts) (auto simp: name_calculate)
  then show ?thesis
    by (simp add: match_workflows_def Let_def sorted_sort_desc filter_sort_desc
        collect_suggestions_filter)
qed

text \<open>
  On the example analysis four templates of the catalog reach confidence 1; they come
  out in catalog order.
\<close>

theorem C6_sorted_descending_stable_witness:
  "map name (filter (\<lambda>s. confidence s = 1)
     (match_workflows load_workflow_templates example_analysis)) =
   [''api-documentation'', ''full-stack-documentation'', ''test-coverage'', ''api-testing'']"
  using C6_sorted_descending_stable [of load_workflow_templates example_analysis 1]
  by (simp add: load_workflow_templates_def example_confidence match_workflows_def Let_def
      name_calculate)

text \<open>
  C7: for every template of the catalog and every flattened signal list, the reasoning
  string is the clauses of the tiers that have a matched trigger, at most three, in the
  order strong, medium, weak, joined by " | ", each clause listing the tier's matched
  triggers as declared; with no matched trigger it is the fixed generic string. It is
  never empty.
\<close>

theorem C7_reasoning_clauses:
  assumes "(n, tpl) \<in> set load_workflow_templates"
  shows "reasoning (calculate_workflow_confidence n tpl (extract_detected_items deps pats)) =
           spec_reasoning (t_triggers tpl) (extract_detected_items deps pats) \<and>
         length (reasoning_clauses (t_triggers tpl) (extract_detected_items deps pats)) \<le> 3 \<and>
         reasoning (calculate_workflow_confidence n tpl (extract_detected_items deps pats)) \<noteq> []"
proof -
  have "lowercase_triggers (t_triggers tpl)"
    using assms by (rule catalog_lowercase_member)
  then have "reasoning (calculate_workflow_confidence n tpl (extract_detected_items deps pats)) =
        spec_reasoning (t_triggers tpl) (extract_detected_items deps pats)"
    by (intro reasoning_lowercase) (simp_all add: extract_detected_items_lower)
  then show ?thesis
    by (simp add: length_reasoning_clauses spec_reasoning_nonempty)
qed

text \<open>
  The catalog's api-documentation on the example analysis has a strong and a weak clause;
  docker-setup has no matched trigger and gets the generic string.
\<close>

theorem C7_reasoning_clauses_witness:
  "(''api-documentation'', api_documentation) \<in> set load_workflow_templates \<and>
   reasoning (calculate_workflow_confidence ''api-documentation'' api_documentation
      (extract_detected_items (dependencies example_analysis)
         (structure_patterns example_analysis))) =
     ''Strong indicators: express | Additional indicators: backend'' \<and>
   spec_reasoning (t_triggers api_documentation)
      (extract_detected_items (dependencies example_analysis)
         (structure_patterns example_analysis)) =
     ''Strong indicators: express | Additional indicators: backend'' \<and>
   reasoning (calculate_workflow_confidence ''docker-setup'' docker_setup
      (extract_detected_items (dependencies example_analysis)
         (structure_patterns example_analysis))) =
     ''General recommendation based on project structure''"
proof -
  have mem: "(''api-documentation'', api_documentation) \<in> set load_workflow_templates"
    by (simp add: load_workflow_templates_def)
  have val: "reasoning (calculate_workflow_confidence ''api-documentation'' api_documentation
      (extract_detected_items (dependencies example_analysis)
         (structure_patterns example_analysis))) =
     ''Strong indicators: express | Additional indicators: backend''"
    by (simp add: example_detected_items api_documentation_def mk_template_def scorer_defs)
  have gen: "reasoning (calculate_workflow_confidence ''docker-setup'' docker_setup
      (extract_detected_items (dependencies example_analysis)
         (structure_patterns example_analysis))) =
     ''General recommendation based on project structure''"
    by (simp add: example_detected_items docker_setup_def mk_template_def scorer_defs)
  show ?thesis
    using mem val gen C7_reasoning_clauses [OF mem, of "dependencies example_analysis"
        "structure_patterns example_analysis"]
    by simp
qed

text \<open>
  C8: on the signal set react, express, jest, component-based, api-driven, test-driven,
  full-stack the catalog's component-library template gets a confidence of at least 0.9
  and a reasoning string that contains react.
\<close>

theorem C8_component_library_example:
  "\<exists>tpl. get_workflow_details load_workflow_templates ''component-library'' = Some tpl \<and>
     0.9 \<le> confidence (calculate_workflow_confidence ''component-library'' tpl example_signals) \<and>
     sublist ''react''
       (reasoning (calculate_workflow_confidence ''component-library'' tpl example_signals))"
proof -
  have get: "get_workflow_details load_workflow_templates ''component-library'' =
      Some component_library"
    by (simp add: get_workflow_details_def load_workflow_templates_def)
  have conf: "confidence (calculate_workflow_confidence ''component-library'' component_library
      example_signals) = 0.9"
    by (simp add: example_signals_def component_library_def mk_template_def confidence_calculate
        raw_confidence_def common_count_filter strong_signal_def medium_signal_def
        weak_signal_def)
  have reas: "reasoning (calculate_workflow_confidence ''component-library'' component_library
      example_signals) = ''Strong indicators: '' @ ''react'' @ []"
    by (simp add: example_signals_def component_library_def mk_template_def scorer_defs)
  have "sublist ''react'' (reasoning (calculate_workflow_confidence ''component-library''
      component_library example_signals))"
    unfolding reas by (rule sublist_appendI)
  with get conf show ?thesis
    by simp
qed

text \<open>
  C9: a trigger that a template of the catalog declares in several tiers counts in each of
  them. On the signal set that holds this trigger alone the confidence is the sum of the
  weights of the tiers that declare it, capped at 1; on every signal set that holds the
  trigger the confidence is at least that; and the matched triggers of the suggestion
  hold the trigger once for each tier that declares it.
\<close>

theorem C9_trigger_in_several_tiers:
  assumes "(n, tpl) \<in> set load_workflow_templates" and "t \<in> set items"
  shows "confidence (calculate_workflow_confidence n tpl [t]) =
           min ((if t \<in> set (strong (t_triggers tpl)) then 0.9 else 0) +
                (if t \<in> set (medium (t_triggers tpl)) then 0.7 else 0) +
                (if t \<in> set (weak (t_triggers tpl)) then 0.5 else 0)) 1 \<and>
         min ((if t \<in> set (strong (t_triggers tpl)) then 0.9 else 0) +
              (if t \<in> set (medium (t_triggers tpl)) then 0.7 else 0) +
              (if t \<in> set (weak (t_triggers tpl)) then 0.5 else 0)) 1
           \<le> confidence (calculate_workflow_confidence n tpl items) \<and>
         count_list (triggers (calculate_workflow_confidence n tpl items)) t =
           (if t \<in> set (strong (t_triggers tpl)) then 1 else 0) +
           (if t \<in> set (medium (t_triggers tpl)) then 1 else 0) +
           (if t \<in> set (weak (t_triggers tpl)) then 1 else 0)"
proof -
  let ?w = "(if t \<in> set (strong (t_triggers tpl)) then 0.9 else 0) +
            (if t \<in> set (medium (t_triggers tpl)) then 0.7 else 0) +
            (if t \<in> set (weak (t_triggers tpl)) then 0.5 else (0::real))"
  have raw: "raw_confidence (t_triggers tpl) [t] = ?w"
    by (simp add: raw_confidence_def common_count_single strong_signal_def medium_signal_def
        weak_signal_def)
  have single: "confidence (calculate_workflow_confidence n tpl [t]) = min ?w 1"
    by (simp only: confidence_calculate raw)
  have "set [t] \<subseteq> set items"
    using assms(2) by simp
  then have "raw_confidence (t_triggers tpl) [t] \<le> raw_confidence (t_triggers tpl) items"
    by (rule raw_confidence_mono)
  then have "min (raw_confidence (t_triggers tpl) [t]) 1 \<le>
      min (raw_confidence (t_triggers tpl) items) 1"
    by (rule min.mono) simp
  then have bound: "min ?w 1 \<le> confidence (calculate_workflow_confidence n tpl items)"
    by (simp only: confidence_calculate raw)
  have low: "\<forall>x\<in>set (strong (t_triggers tpl)). lower x = x"
    "\<forall>x\<in>set (medium (t_triggers tpl)). lower x = x"
    "\<forall>x\<in>set (weak (t_triggers tpl)). lower x = x"
    using catalog_lowercase_member [OF assms(1)] by (simp_all add: lowercase_triggers_iff)
  have count: "count_list (triggers (calculate_workflow_confidence n tpl items)) t =
      (if t \<in> set (strong (t_triggers tpl)) then 1 else 0) +
      (if t \<in> set (medium (t_triggers tpl)) then 1 else 0) +
      (if t \<in> set (weak (t_triggers tpl)) then 1 else 0)"
    by (simp only: triggers_calculate count_list_append
        count_matched_items [OF catalog_tiers_distinct_member(1) [OF assms(1)] low(1) assms(2)]
        count_matched_items [OF catalog_tiers_distinct_member(2) [OF assms(1)] low(2) assms(2)]
        count_matched_items [OF catalog_tiers_distinct_member(3) [OF assms(1)] low(3) assms(2)]
        add.assoc)
  from single bound count show ?thesis
    by (intro conjI)
qed

text \<open>
  The catalog's performance-optimization declares optimization as a strong and as a
  medium trigger: on the single signal optimization the sum of the weights is 1.6, the
  confidence is 1, and the matched triggers hold optimization twice.
\<close>

theorem C9_trigger_in_several_tiers_witness:
  "(''performance-optimization'', performance_optimization) \<in> set load_workflow_templates \<and>
   ''optimization'' \<in> set (strong (t_triggers performance_optimization)) \<and>
   ''optimization'' \<in> set (medium (t_triggers performance_optimization)) \<and>
   ''optimization'' \<notin> set (weak (t_triggers performance_optimization)) \<and>
   confidence (calculate_workflow_confidence ''performance-optimization''
      performance_optimization [''optimization'']) = min (0.9 + 0.7) 1 \<and>
   confidence (calculate_workflow_confidence ''performance-optimization''
      performance_optimization [''optimization'']) = 1 \<and>
   triggers (calculate_workflow_confidence ''performance-optimization''
      performance_optimization [''optimization'']) = [''optimization'', ''optimization''] \<and>
   count_list (triggers (calculate_workflow_confidence ''performance-optimization''
      performance_optimization [''optimization''])) ''optimization'' = 2"
proof -
  have mem: "(''performance-optimization'', performance_optimization) \<in>
      set load_workflow_templates"
    by (simp add: load_workflow_templates_def)
  have sig: "''optimization'' \<in> set [''optimization'']"
    by simp
  have tiers: "''optimization'' \<in> set (strong (t_triggers performance_optimization))"
    "''optimization'' \<in> set (medium (t_triggers performance_optimization))"
    "''optimization'' \<notin> set (weak (t_triggers performance_optimization))"
    by (simp_all add: performance_optimization_def mk_template_def)
  have trig: "triggers (calculate_workflow_confidence ''performance-optimization''
      performance_optimization [''optimization'']) = [''optimization'', ''optimization'']"
    by (simp add: performance_optimization_def mk_template_def triggers_calculate
        matched_items_def lower_def)
  show ?thesis
    using mem tiers trig C9_trigger_in_several_tiers [OF mem sig]
    by simp
qed

text \<open>
  C10: a template of the matcher's table has a suggestion in the output exactly when one
  of its triggers is in the signal set, and every suggestion of the output has a
  confidence of at least 0.5.
\<close>

theorem C10_floor_is_nonempty_match:
  assumes "(n, tpl) \<in> set ts" and "distinct (map fst ts)"
  shows "((\<exists>s\<in>set (match_workflows ts a). name s = n) \<longleftrightarrow>
          (\<exists>t\<in>set (all_triggers (t_triggers tpl)).
             t \<in> set (extract_detected_items (dependencies a) (structure_patterns a)))) \<and>
         (\<forall>s\<in>set (match_workflows ts a). 0.5 \<le> confidence s)"
proof -
  have "(\<exists>s\<in>set (match_workflows ts a). name s = n) \<longleftrightarrow>
        set (all_triggers (t_triggers tpl)) \<inter>
          set (extract_detected_items (dependencies a) (structure_patterns a)) \<noteq> {}"
    using emitted_name_iff [OF assms, of a] floor_iff_match by blast
  moreover have "0.5 \<le> confidence s" if "s \<in> set (match_workflows ts a)" for s
    using emitted_origin [OF that] floor_imp_half by blast
  ultimately show ?thesis
    by blast
qed

text \<open>
  On the example analysis the catalog's storybook-setup has the matching trigger react
  and is in the output; docker-setup has none and is not. The seven confidences of the
  output are all at least 0.5.
\<close>

theorem C10_floor_is_nonempty_match_witness:
  "(''storybook-setup'', storybook_setup) \<in> set load_workflow_templates \<and>
   (''docker-setup'', docker_setup) \<in> set load_workflow_templates \<and>
   distinct (map fst load_workflow_templates) \<and>
   (\<exists>s\<in>set (match_workflows load_workflow_templates example_analysis).
      name s = ''storybook-setup'') \<and>
   \<not> (\<exists>s\<in>set (match_workflows load_workflow_templates example_analysis).
      name s = ''docker-setup'') \<and>
   map confidence (match_workflows load_workflow_templates example_analysis) =
     [1, 1, 1, 1, 0.9, 0.9, 0.7]"
proof -
  have vals: "map confidence (match_workflows load_workflow_templates example_analysis) =
      [1, 1, 1, 1, 0.9, 0.9, 0.7]"
    by (simp add: load_workflow_templates_def example_confidence match_workflows_def Let_def)
  have m1: "(''storybook-setup'', storybook_setup) \<in> set load_workflow_templates"
    by (simp add: load_workflow_templates_def)
  have m2: "(''docker-setup'', docker_setup) \<in> set load_workflow_templates"
    by (simp add: load_workflow_templates_def)
  have t1: "\<exists>t\<in>set (all_triggers (t_triggers storybook_setup)).
      t \<in> set (extract_detected_items (dependencies example_analysis)
                 (structure_patterns example_analysis))"
    by (simp add: example_detected_items storybook_setup_def mk_template_def all_triggers_def)
  have t2: "\<not> (\<exists>t\<in>set (all_triggers (t_triggers docker_setup)).
      t \<in> set (extract_detected_items (dependencies example_analysis)
                 (structure_patterns example_analysis)))"
    by (simp add: example_detected_items docker_setup_def mk_template_def all_triggers_def)
  show ?thesis
    using m1 m2 t1 t2 vals catalog_distinct
      C10_floor_is_nonempty_match [OF m1 catalog_distinct, of example_analysis]
      C10_floor_is_nonempty_match [OF m2 catalog_distinct, of example_analysis]
    by blast
qed

end
